theory Spec2Isabelle
  imports Complex_Main "HOL-Library.Multiset"
begin

section \<open>Audio forensic detector: the event pipeline of the two analysis scripts\<close>

text \<open>
  The development embeds the event-detection and report-assembly code of
  \<^verbatim>\<open>scripts/audio_analysis.py\<close> (function \<^verbatim>\<open>analyze_audio\<close>, the Basic analyzer) and
  \<^verbatim>\<open>scripts/live_audio_analysis.py\<close> (function \<^verbatim>\<open>generate_live_analysis\<close>, the Extended
  analyzer).

  Samples, energies and features are modelled as real numbers: comparisons, selection
  and ordering are exactly those of the code on finite floating-point values; sums,
  quotients and decimal rounding are the exact ones, without the rounding error of
  binary floating point and without NaN.

  Every exception the Python raises is a value \<open>Inl e\<close> of a sum type; both analyzers
  wrap their whole body in \<^verbatim>\<open>try ... except Exception\<close> and return a failure record
  then, so \<open>Inl e\<close> at top level is the failure result and \<open>Inr r\<close> the analysis result.
\<close>

subsection \<open>Python and numpy primitives\<close>

datatype py_error = ValueError | IndexError

text \<open>\<^verbatim>\<open>np.max(a)\<close>: the maximum of the array; on a zero-size array numpy raises
  \<^verbatim>\<open>ValueError: zero-size array to reduction operation maximum which has no identity\<close>.\<close>

definition np_max :: "real list \<Rightarrow> py_error + real" where
  "np_max a = (case a of [] \<Rightarrow> Inl ValueError | v # vs \<Rightarrow> Inr (fold max vs v))"

text \<open>\<^verbatim>\<open>range(0, stop, step)\<close> with non-negative arguments: the values \<open>0, step, 2 step, ...\<close>
  below \<open>stop\<close>; \<^verbatim>\<open>range() arg 3 must not be zero\<close> is a \<^verbatim>\<open>ValueError\<close>.\<close>

definition range_values :: "nat \<Rightarrow> nat \<Rightarrow> nat list" where
  "range_values stop step = map (\<lambda>k. k * step) [0 ..< (stop + step - 1) div step]"

definition py_range :: "nat \<Rightarrow> nat \<Rightarrow> py_error + nat list" where
  "py_range stop step = (if step = 0 then Inl ValueError else Inr (range_values stop step))"

text \<open>\<^verbatim>\<open>a[i]\<close> on a one-dimensional array with a Python integer index: a negative index
  counts from the end, and an index outside the array raises \<^verbatim>\<open>IndexError\<close>.\<close>

definition py_index :: "'a list \<Rightarrow> int \<Rightarrow> py_error + 'a" where
  "py_index a i =
     (let n = int (length a); j = (if i < 0 then n + i else i)
      in if 0 \<le> j \<and> j < n then Inr (a ! nat j) else Inl IndexError)"

text \<open>\<^verbatim>\<open>round(x, nd)\<close>: the nearest multiple of \<open>10\<^sup>-\<^sup>n\<^sup>d\<close>, a tie going to the even one.\<close>

definition round_half_even :: "real \<Rightarrow> int" where
  "round_half_even x =
     (let f = \<lfloor>x\<rfloor>; d = x - of_int f
      in if d < 1/2 then f else if 1/2 < d then f + 1 else if even f then f else f + 1)"

definition py_round :: "real \<Rightarrow> nat \<Rightarrow> real" where
  "py_round x nd = of_int (round_half_even (x * 10 ^ nd)) / 10 ^ nd"

text \<open>\<^verbatim>\<open>np.linspace(0, stop, num)\<close>: \<open>num\<close> evenly spaced values from 0 to \<open>stop\<close>
  inclusive; a single value is the start.\<close>

definition np_linspace :: "real \<Rightarrow> nat \<Rightarrow> real list" where
  "np_linspace stop num =
     map (\<lambda>i. if num = 1 then 0 else real i * (stop / real (num - 1))) [0 ..< num]"

text \<open>A boolean mask as index, \<^verbatim>\<open>a[keep]\<close>: the entries of \<open>a\<close> whose flag is set, in
  their order.\<close>

definition mask :: "'a list \<Rightarrow> bool list \<Rightarrow> 'a list" where
  "mask a keep = map (\<lambda>k. a ! k) (filter (\<lambda>k. keep ! k) [0 ..< length a])"

text \<open>A \<^verbatim>\<open>for\<close> loop that appends one record per element and is left by the first
  exception raised in its body.\<close>

fun for_each :: "('a \<Rightarrow> py_error + 'b) \<Rightarrow> 'a list \<Rightarrow> py_error + 'b list" where
  "for_each f [] = Inr []"
| "for_each f (a # as) =
     (case f a of
        Inl e \<Rightarrow> Inl e
      | Inr b \<Rightarrow> (case for_each f as of Inl e \<Rightarrow> Inl e | Inr bs \<Rightarrow> Inr (b # bs)))"

text \<open>A decibel value: \<^verbatim>\<open>-np.inf\<close> is the sentinel of an amplitude that is not positive.
  \<^verbatim>\<open>20 * np.log10(a) if a > 0 else -np.inf\<close>, and \<^verbatim>\<open>round\<close> of it (the sentinel rounds
  to itself).\<close>

datatype decibel = NegInf | Finite real

definition to_decibels :: "real \<Rightarrow> decibel" where
  "to_decibels a = (if a > 0 then Finite (20 * log 10 a) else NegInf)"

definition round_decibel :: "decibel \<Rightarrow> nat \<Rightarrow> decibel" where
  "round_decibel d nd = (case d of NegInf \<Rightarrow> NegInf | Finite v \<Rightarrow> Finite (py_round v nd))"

subsection \<open>Frame energy (\<^verbatim>\<open>audio_analysis.py\<close> 58-66, \<^verbatim>\<open>live_audio_analysis.py\<close> 100-111)\<close>

definition frame_length :: nat where "frame_length = 1024"
definition hop_length :: nat where "hop_length = 512"

text \<open>\<^verbatim>\<open>[sum(abs(y[i:i+frame_length]**2)) for i in range(0, len(y), hop_length)]\<close>; the
  hop is 512, so \<^verbatim>\<open>range\<close> does not raise here.\<close>

definition frame_energy :: "real list \<Rightarrow> real list" where
  "frame_energy y =
     map (\<lambda>i. sum_list (map (\<lambda>s. \<bar>s\<^sup>2\<bar>) (take frame_length (drop i y))))
       (range_values (length y) hop_length)"

text \<open>\<^verbatim>\<open>energy / np.max(energy) if np.max(energy) > 0 else energy\<close>: the condition is
  evaluated first, so the maximum of an empty envelope raises.\<close>

definition normalize_energy :: "real list \<Rightarrow> py_error + real list" where
  "normalize_energy energy =
     (case np_max energy of
        Inl e \<Rightarrow> Inl e
      | Inr m \<Rightarrow> Inr (if m > 0 then map (\<lambda>v. v / m) energy else energy))"




subsection \<open>Peak picking: \<^verbatim>\<open>find_peaks(energy, height=0.2, distance=5)\<close>\<close>

text \<open>
  Both analyzers call \<^verbatim>\<open>scipy.signal.find_peaks\<close>. The repository holds the call only; the
  functions below follow the library routine the call runs: the scan for local maxima
  (\<^verbatim>\<open>_local_maxima_1d\<close>), the height condition (\<^verbatim>\<open>_select_by_property\<close>) and the distance
  condition (\<^verbatim>\<open>_select_by_peak_distance\<close>).

  \<^verbatim>\<open>_local_maxima_1d\<close>: \<open>i\<close> runs from 1 to \<open>len(x) - 2\<close>; where the sample before \<open>i\<close>
  is smaller, \<open>i_ahead\<close> runs over the samples equal to \<open>x[i]\<close>; when the next unequal
  sample is smaller, the middle of the flat stretch \<open>(i + i_ahead - 1) // 2\<close> is a maximum
  and the scan continues behind the stretch.
\<close>

function find_ahead :: "real list \<Rightarrow> nat \<Rightarrow> nat \<Rightarrow> nat" where
  "find_ahead x i i_ahead =
     (if i_ahead < length x - 1 \<and> x ! i_ahead = x ! i
      then find_ahead x i (Suc i_ahead) else i_ahead)"
  by pat_completeness auto
termination
  by (relation "measure (\<lambda>(x, i, i_ahead). length x - 1 - i_ahead)") auto

declare find_ahead.simps [simp del]

function local_maxima_from :: "real list \<Rightarrow> nat \<Rightarrow> nat list" where
  "local_maxima_from x i =
     (if i < length x - 1 then
        (if x ! (i - 1) < x ! i then
           (let i_ahead = find_ahead x i (i + 1) in
            if x ! i_ahead < x ! i
            then ((i + (i_ahead - 1)) div 2) # local_maxima_from x (i_ahead + 1)
            else local_maxima_from x (i + 1))
         else local_maxima_from x (i + 1))
      else [])"
  by pat_completeness auto
termination
proof (relation "measure (\<lambda>(x, i). length x - i)", goal_cases)
  case 1
  show ?case by simp
next
  case (2 x i xa)
  have up: "a \<le> find_ahead x i a" for a
  proof (induction x i a rule: find_ahead.induct)
    case (1 x i a)
    show ?case
    proof (cases "a < length x - 1 \<and> x ! a = x ! i")
      case True
      then show ?thesis using 1 by (subst find_ahead.simps) auto
    next
      case False
      then show ?thesis by (subst find_ahead.simps) auto
    qed
  qed
  from up [of "i + 1"] 2 show ?case by (simp; arith)
next
  case (3 x i xa)
  then show ?case by simp
next
  case (4 x i)
  then show ?case by simp
qed

declare local_maxima_from.simps [simp del]

definition local_maxima_1d :: "real list \<Rightarrow> nat list" where
  "local_maxima_1d x = local_maxima_from x 1"

text \<open>\<^verbatim>\<open>_select_by_property(peak_heights, hmin, None)\<close>: the flags \<open>hmin \<le> height\<close>.\<close>

definition select_by_property :: "real list \<Rightarrow> real \<Rightarrow> bool list" where
  "select_by_property peak_properties pmin = map (\<lambda>v. pmin \<le> v) peak_properties"

text \<open>
  \<^verbatim>\<open>_select_by_peak_distance(peaks, priority, distance)\<close>: all flags start set; the peaks
  are visited from the highest priority down, in the order
  \<^verbatim>\<open>priority_to_position = np.argsort(priority)\<close> read backwards; a visited peak whose flag
  is still set clears the flags of its neighbours \<open>k = j - 1, j - 2, ...\<close> and
  \<open>k = j + 1, j + 2, ...\<close> as long as they are less than \<open>distance\<close> away.

  In \<open>flag_earlier\<close> the counter is \<open>k + 1\<close>, so that the loop condition \<open>0 \<le> k\<close> is the
  pattern \<open>Suc k\<close>.
\<close>

fun flag_earlier :: "nat list \<Rightarrow> nat \<Rightarrow> nat \<Rightarrow> nat \<Rightarrow> bool list \<Rightarrow> bool list" where
  "flag_earlier peaks distance j 0 keep = keep"
| "flag_earlier peaks distance j (Suc k) keep =
     (if int (peaks ! j) - int (peaks ! k) < int distance
      then flag_earlier peaks distance j k (keep[k := False]) else keep)"

function flag_later :: "nat list \<Rightarrow> nat \<Rightarrow> nat \<Rightarrow> nat \<Rightarrow> bool list \<Rightarrow> bool list" where
  "flag_later peaks distance j k keep =
     (if k < length peaks \<and> int (peaks ! k) - int (peaks ! j) < int distance
      then flag_later peaks distance j (Suc k) (keep[k := False]) else keep)"
  by pat_completeness auto
termination
  by (relation "measure (\<lambda>(peaks, distance, j, k, keep). length peaks - k)") auto

declare flag_later.simps [simp del]

definition suppress_neighbours :: "nat list \<Rightarrow> nat \<Rightarrow> bool list \<Rightarrow> nat \<Rightarrow> bool list" where
  "suppress_neighbours peaks distance keep j =
     (if keep ! j
      then flag_later peaks distance j (Suc j) (flag_earlier peaks distance j j keep)
      else keep)"

text \<open>\<^verbatim>\<open>np.argsort\<close> is a parameter: numpy's default sort is not a stable one, so the
  order it gives to equal priorities is not fixed by the code.\<close>

definition select_by_peak_distance ::
  "(real list \<Rightarrow> nat list) \<Rightarrow> nat list \<Rightarrow> real list \<Rightarrow> nat \<Rightarrow> bool list" where
  "select_by_peak_distance argsort peaks priority distance =
     fold (\<lambda>j keep. suppress_neighbours peaks distance keep j)
       (rev (argsort priority)) (replicate (length peaks) True)"

definition find_peaks ::
  "(real list \<Rightarrow> nat list) \<Rightarrow> real list \<Rightarrow> real \<Rightarrow> int \<Rightarrow> py_error + nat list" where
  "find_peaks argsort x height distance =
     (if distance < 1 then Inl ValueError
      else
        let peaks = local_maxima_1d x;
            keep = select_by_property (map (\<lambda>p. x ! p) peaks) height;
            peaks = mask peaks keep;
            keep = select_by_peak_distance argsort peaks (map (\<lambda>p. x ! p) peaks) (nat distance)
        in Inr (mask peaks keep))"

text \<open>What \<^verbatim>\<open>np.argsort\<close> guarantees: a permutation of the positions that puts the values
  in non-decreasing order. A stable sort is one such function.\<close>

definition is_argsort :: "real list \<Rightarrow> nat list \<Rightarrow> bool" where
  "is_argsort a order \<longleftrightarrow>
     sort order = [0 ..< length a] \<and> sorted (map (\<lambda>j. a ! j) order)"

definition stable_argsort :: "real list \<Rightarrow> nat list" where
  "stable_argsort a = sort_key (\<lambda>j. a ! j) [0 ..< length a]"






subsection \<open>Classifiers\<close>

text \<open>\<^verbatim>\<open>audio_analysis.py\<close>, lines 92-100: the label from the centroid at the peak.\<close>

definition classify_basic :: "real \<Rightarrow> string" where
  "classify_basic freq_at_peak =
     (if freq_at_peak < 300 then ''Low Frequency/Bass''
      else if freq_at_peak < 1000 then ''Voice/Mid Range''
      else if freq_at_peak < 4000 then ''High Voice/Instruments''
      else ''High Frequency/Noise'')"

text \<open>\<^verbatim>\<open>live_audio_analysis.py\<close>, lines 152-167: label and confidence from centroid,
  rolloff and zero-crossing rate.\<close>

definition classify_extended :: "real \<Rightarrow> real \<Rightarrow> real \<Rightarrow> string \<times> real" where
  "classify_extended centroid rolloff zcr_val =
     (if centroid < 1000 \<and> rolloff < 2000 then (''Low Frequency/Bass'', 0.8)
      else if centroid < 3000 \<and> zcr_val < 0.1 then (''Voice/Speech'', 0.9)
      else if centroid > 4000 \<and> rolloff > 8000 then (''High Frequency/Noise'', 0.7)
      else if zcr_val > 0.15 then (''Percussive/Transient'', 0.85)
      else (''Mixed/Complex'', 0.6))"

text \<open>The specification's wording of the Extended policy: an ordered list of rules
  (predicate, label, confidence), the first rule whose predicate holds deciding, and a
  default when none does.\<close>

type_synonym rule = "(real \<times> real \<times> real \<Rightarrow> bool) \<times> string \<times> real"

fun first_match :: "rule list \<Rightarrow> string \<times> real \<Rightarrow> real \<times> real \<times> real \<Rightarrow> string \<times> real" where
  "first_match [] dflt v = dflt"
| "first_match ((p, out) # rs) dflt v = (if p v then out else first_match rs dflt v)"

definition spec_extended_rules :: "rule list" where
  "spec_extended_rules =
     [(\<lambda>(c, r, z). c < 1000 \<and> r < 2000, ''Low Frequency/Bass'', 0.8),
      (\<lambda>(c, r, z). c < 3000 \<and> z < 0.1, ''Voice/Speech'', 0.9),
      (\<lambda>(c, r, z). c > 4000 \<and> r > 8000, ''High Frequency/Noise'', 0.7),
      (\<lambda>(c, r, z). z > 0.15, ''Percussive/Transient'', 0.85)]"

definition spec_extended_default :: "string \<times> real" where
  "spec_extended_default = (''Mixed/Complex'', 0.6)"

subsection \<open>Feature alignment\<close>

text \<open>\<^verbatim>\<open>audio_analysis.py\<close>, line 89:
  \<^verbatim>\<open>spectral_centroids[min(peak, len(spectral_centroids)-1)]\<close>.\<close>

definition align_basic :: "real list \<Rightarrow> nat \<Rightarrow> py_error + real" where
  "align_basic spectral_centroids peak =
     py_index spectral_centroids (min (int peak) (int (length spectral_centroids) - 1))"

text \<open>\<^verbatim>\<open>live_audio_analysis.py\<close>, lines 147-150: one frame index, clamped by the length of
  the centroid array, reads all three arrays; only the zero-crossing rate is guarded.\<close>

definition align_extended ::
  "real list \<Rightarrow> real list \<Rightarrow> real list \<Rightarrow> nat \<Rightarrow> py_error + real \<times> real \<times> real" where
  "align_extended spectral_centroids spectral_rolloff zcr peak =
     (let frame_idx = min (int peak) (int (length spectral_centroids) - 1) in
      case py_index spectral_centroids frame_idx of
        Inl e \<Rightarrow> Inl e
      | Inr centroid \<Rightarrow>
          (case py_index spectral_rolloff frame_idx of
             Inl e \<Rightarrow> Inl e
           | Inr rolloff \<Rightarrow>
               (case (if frame_idx < int (length zcr) then py_index zcr frame_idx else Inr 0) of
                  Inl e \<Rightarrow> Inl e
                | Inr zcr_val \<Rightarrow> Inr (centroid, rolloff, zcr_val))))"


subsection \<open>Sound events\<close>

record sound_event =
  time :: real
  event_frequency :: real
  amplitude :: real
  sound_type :: string
  decibels :: decibel

record live_sound_event = sound_event +
  confidence :: real
  event_spectral_rolloff :: real
  zero_crossing_rate :: real

text \<open>The body of the loop over the peaks, \<^verbatim>\<open>audio_analysis.py\<close> 87-108. A peak is an
  index of the envelope, so \<^verbatim>\<open>energy[peak]\<close> is inside the array.\<close>

definition sound_event_basic :: "real \<Rightarrow> real list \<Rightarrow> real list \<Rightarrow> nat \<Rightarrow> py_error + sound_event" where
  "sound_event_basic sr spectral_centroids energy peak =
     (let time_pos = real (peak * hop_length) / sr in
      case align_basic spectral_centroids peak of
        Inl e \<Rightarrow> Inl e
      | Inr freq_at_peak \<Rightarrow>
          Inr \<lparr>time = py_round time_pos 2,
               event_frequency = py_round freq_at_peak 1,
               amplitude = py_round (energy ! peak) 3,
               sound_type = classify_basic freq_at_peak,
               decibels = round_decibel (to_decibels (energy ! peak)) 1\<rparr>)"

text \<open>The body of the loop over the peaks, \<^verbatim>\<open>live_audio_analysis.py\<close> 143-181.\<close>

definition sound_event_live ::
  "real \<Rightarrow> real list \<Rightarrow> real list \<Rightarrow> real list \<Rightarrow> real list \<Rightarrow> nat \<Rightarrow> py_error + live_sound_event" where
  "sound_event_live sr spectral_centroids spectral_rolloff zcr energy peak =
     (let time_pos = real (peak * hop_length) / sr in
      case align_extended spectral_centroids spectral_rolloff zcr peak of
        Inl e \<Rightarrow> Inl e
      | Inr (centroid, rolloff, zcr_val) \<Rightarrow>
          Inr \<lparr>time = py_round time_pos 2,
               event_frequency = py_round centroid 1,
               amplitude = py_round (energy ! peak) 3,
               sound_type = fst (classify_extended centroid rolloff zcr_val),
               decibels = round_decibel (to_decibels (energy ! peak)) 1,
               confidence = snd (classify_extended centroid rolloff zcr_val),
               event_spectral_rolloff = py_round rolloff 1,
               zero_crossing_rate = py_round zcr_val 3\<rparr>)"

text \<open>\<^verbatim>\<open>sound_events.sort(key=lambda x: x["amplitude"], reverse=True)\<close>: Python's sort is
  stable, also in reverse: events of equal amplitude keep their order. The slices
  \<^verbatim>\<open>sound_events[:10]\<close> and \<^verbatim>\<open>sound_events[:15]\<close> keep the first entries.\<close>

definition sort_loudest_first :: "('a sound_event_scheme) list \<Rightarrow> ('a sound_event_scheme) list" where
  "sort_loudest_first sound_events = sort_key (\<lambda>e. - amplitude e) sound_events"


subsection \<open>Frequency spectrum\<close>

record spectrum_point =
  point_frequency :: real
  point_magnitude :: real

text \<open>The loop body of \<^verbatim>\<open>audio_analysis.py\<close> 117-121 and \<^verbatim>\<open>live_audio_analysis.py\<close>
  203-207, over the indices that \<^verbatim>\<open>range\<close> gives.\<close>

fun spectrum_loop :: "real list \<Rightarrow> real list \<Rightarrow> nat list \<Rightarrow> py_error + spectrum_point list" where
  "spectrum_loop frequency magnitude [] = Inr []"
| "spectrum_loop frequency magnitude (i # rest) =
     (if i < length magnitude then
        (case np_max magnitude of
           Inl e \<Rightarrow> Inl e
         | Inr m \<Rightarrow>
             (case spectrum_loop frequency magnitude rest of
                Inl e \<Rightarrow> Inl e
              | Inr points \<Rightarrow>
                  Inr (\<lparr>point_frequency = py_round (frequency ! i) 1,
                        point_magnitude =
                          (if m > 0 then py_round (magnitude ! i / m) 3 else 0)\<rparr> # points)))
      else spectrum_loop frequency magnitude rest)"

text \<open>\<^verbatim>\<open>audio_analysis.py\<close> 114-121: the stride \<^verbatim>\<open>len(frequency) // 100\<close> goes to \<^verbatim>\<open>range\<close>
  as it is.\<close>

definition freq_spectrum_basic :: "real \<Rightarrow> real list \<Rightarrow> py_error + spectrum_point list" where
  "freq_spectrum_basic sr magnitude =
     (let frequency = np_linspace sr (length magnitude);
          freq_step = length frequency div 100
      in case py_range (length frequency div 2) freq_step of
           Inl e \<Rightarrow> Inl e
         | Inr indices \<Rightarrow> spectrum_loop frequency magnitude indices)"

text \<open>\<^verbatim>\<open>live_audio_analysis.py\<close> 200-207: the stride is \<^verbatim>\<open>max(1, len(frequency) // 200)\<close>.\<close>

definition freq_spectrum_live :: "real \<Rightarrow> real list \<Rightarrow> py_error + spectrum_point list" where
  "freq_spectrum_live sr magnitude =
     (let frequency = np_linspace sr (length magnitude);
          freq_step = length frequency div 200
      in case py_range (length frequency div 2) (max 1 freq_step) of
           Inl e \<Rightarrow> Inl e
         | Inr indices \<Rightarrow> spectrum_loop frequency magnitude indices)"

text \<open>The sample of the magnitude array at index \<open>i\<close> as both loops build it.\<close>

definition spectrum_point_at :: "real \<Rightarrow> real list \<Rightarrow> nat \<Rightarrow> spectrum_point" where
  "spectrum_point_at sr magnitude i =
     \<lparr>point_frequency = py_round (np_linspace sr (length magnitude) ! i) 1,
      point_magnitude =
        (if Max (set magnitude) > 0 then py_round (magnitude ! i / Max (set magnitude)) 3 else 0)\<rparr>"

subsection \<open>The two analyzers\<close>

text \<open>
  The decoder and the transform provider are outside the model: an analyzer takes the
  samples \<open>y\<close> and the sample rate \<open>sr\<close> that \<^verbatim>\<open>librosa.load\<close> returned, the magnitude
  \<^verbatim>\<open>np.abs(np.fft.fft(y))\<close> of the full-signal transform and the per-frame feature arrays
  of \<^verbatim>\<open>librosa.feature\<close>, and \<open>argsort\<close> for \<^verbatim>\<open>np.argsort\<close>. The duration is
  \<^verbatim>\<open>librosa.get_duration(y=y, sr=sr)\<close>, the number of samples over the rate. The result
  holds the fields the event pipeline computes; the means of the external features, the
  file name, the time stamp and the plot data are left out, and so is the serialisation
  \<^verbatim>\<open>json.dumps\<close>.
\<close>

record 'e analysis_result =
  duration :: real
  sampleRate :: real
  detectedSounds :: nat
  maxDecibels :: decibel
  soundEvents :: "'e list"
  frequencySpectrum :: "spectrum_point list"

text \<open>\<^verbatim>\<open>20 * np.log10(np.max(np.abs(y))) if np.max(np.abs(y)) > 0 else -np.inf\<close>.\<close>

definition max_decibels :: "real list \<Rightarrow> py_error + decibel" where
  "max_decibels y =
     (case np_max (map abs y) of Inl e \<Rightarrow> Inl e | Inr max_amplitude \<Rightarrow> Inr (to_decibels max_amplitude))"

text \<open>The peaks of the normalized envelope, lines 60-69 of \<^verbatim>\<open>audio_analysis.py\<close> and
  104-114 of \<^verbatim>\<open>live_audio_analysis.py\<close>.\<close>

definition detect_peaks :: "(real list \<Rightarrow> nat list) \<Rightarrow> real list \<Rightarrow> py_error + real list \<times> nat list" where
  "detect_peaks argsort y =
     (case normalize_energy (frame_energy y) of
        Inl e \<Rightarrow> Inl e
      | Inr energy \<Rightarrow>
          (case find_peaks argsort energy 0.2 5 of
             Inl e \<Rightarrow> Inl e
           | Inr peaks \<Rightarrow> Inr (energy, peaks)))"

text \<open>The events in the order of the peaks, before they are sorted.\<close>

definition sound_events_basic ::
  "(real list \<Rightarrow> nat list) \<Rightarrow> real list \<Rightarrow> real \<Rightarrow> real list \<Rightarrow> py_error + sound_event list" where
  "sound_events_basic argsort y sr spectral_centroids =
     (case detect_peaks argsort y of
        Inl e \<Rightarrow> Inl e
      | Inr (energy, peaks) \<Rightarrow> for_each (sound_event_basic sr spectral_centroids energy) peaks)"


text \<open>\<^verbatim>\<open>analyze_audio\<close>: envelope and peaks (60-70), maximal level (83), events (86-111),
  spectrum (114-121), report (126-138).\<close>

definition analyze_audio ::
  "(real list \<Rightarrow> nat list) \<Rightarrow> real list \<Rightarrow> real \<Rightarrow> real list \<Rightarrow> real list \<Rightarrow>
   py_error + sound_event analysis_result" where
  "analyze_audio argsort y sr magnitude spectral_centroids =
     (case detect_peaks argsort y of
        Inl e \<Rightarrow> Inl e
      | Inr (energy, peaks) \<Rightarrow>
     (case max_decibels y of
        Inl e \<Rightarrow> Inl e
      | Inr max_db \<Rightarrow>
     (case for_each (sound_event_basic sr spectral_centroids energy) peaks of
        Inl e \<Rightarrow> Inl e
      | Inr sound_events \<Rightarrow>
     (case freq_spectrum_basic sr magnitude of
        Inl e \<Rightarrow> Inl e
      | Inr freq_spectrum \<Rightarrow>
          Inr \<lparr>duration = py_round (real (length y) / sr) 2,
               sampleRate = sr,
               detectedSounds = length peaks,
               maxDecibels = round_decibel max_db 1,
               soundEvents = take 10 (sort_loudest_first sound_events),
               frequencySpectrum = freq_spectrum\<rparr>))))"

text \<open>\<^verbatim>\<open>generate_live_analysis\<close>: envelope and peaks (104-114), events (142-184), maximal
  level (196-197), spectrum (200-207), report (212-242).\<close>

definition generate_live_analysis ::
  "(real list \<Rightarrow> nat list) \<Rightarrow> real list \<Rightarrow> real \<Rightarrow> real list \<Rightarrow> real list \<Rightarrow> real list \<Rightarrow>
   real list \<Rightarrow> py_error + live_sound_event analysis_result" where
  "generate_live_analysis argsort y sr magnitude spectral_centroids spectral_rolloff zcr =
     (case detect_peaks argsort y of
        Inl e \<Rightarrow> Inl e
      | Inr (energy, peaks) \<Rightarrow>
     (case for_each (sound_event_live sr spectral_centroids spectral_rolloff zcr energy) peaks of
        Inl e \<Rightarrow> Inl e
      | Inr sound_events \<Rightarrow>
     (case max_decibels y of
        Inl e \<Rightarrow> Inl e
      | Inr max_db \<Rightarrow>
     (case freq_spectrum_live sr magnitude of
        Inl e \<Rightarrow> Inl e
      | Inr freq_spectrum \<Rightarrow>
          Inr \<lparr>duration = py_round (real (length y) / sr) 2,
               sampleRate = sr,
               detectedSounds = length peaks,
               maxDecibels = round_decibel max_db 1,
               soundEvents = take 15 (sort_loudest_first sound_events),
               frequencySpectrum = freq_spectrum\<rparr>))))"

subsection \<open>Example signals\<close>







section \<open>Theorems\<close>

subsection \<open>Auxiliary facts\<close>

lemma ceil_div_cases:
  "0 < step \<Longrightarrow> (n + step - 1) div step = (if step dvd n then n div step else Suc (n div step))"
  by (cases n) (auto simp: div_Suc dvd_eq_mod_eq_0)

lemma range_values_filter:
  assumes "0 < step"
  shows "range_values stop step = filter (\<lambda>off. step dvd off) [0 ..< stop]"
proof (induction stop)
  case 0
  then show ?case using assms by (simp add: range_values_def)
next
  case (Suc n)
  have c: "(Suc n + step - 1) div step = Suc (n div step)"
    using assms by simp
  show ?case
  proof (cases "step dvd n")
    case True
    then have "n div step * step = n" by simp
    then show ?thesis
      using Suc True c ceil_div_cases [OF assms, of n] by (simp add: range_values_def)
  next
    case False
    then show ?thesis
      using Suc c ceil_div_cases [OF assms, of n] by (simp add: range_values_def)
  qed
qed


lemma np_max_Max: "e \<noteq> [] \<Longrightarrow> np_max e = Inr (Max (set e))"
  by (cases e) (simp_all add: np_max_def Max.set_eq_fold [symmetric])



lemma frame_energy_empty_iff: "frame_energy y = [] \<longleftrightarrow> y = []"
  by (cases y) (simp_all add: frame_energy_def range_values_def hop_length_def div_eq_0_iff)







lemma length_flag_earlier [simp]: "length (flag_earlier peaks d j m keep) = length keep"
  by (induction m arbitrary: keep) auto

lemma length_flag_later [simp]: "length (flag_later peaks d j m keep) = length keep"
proof (induction peaks d j m keep rule: flag_later.induct)
  case (1 peaks d j k keep)
  then show ?case by (subst flag_later.simps) auto
qed




lemma length_suppress_neighbours [simp]:
  "length (suppress_neighbours peaks d keep j) = length keep"
  by (simp add: suppress_neighbours_def)






lemma stable_argsort_is_argsort: "is_argsort a (stable_argsort a)"
proof -
  have "sort (sort_key (\<lambda>j. a ! j) [0 ..< length a]) = [0 ..< length a]"
    by (rule properties_for_sort) simp_all
  then show ?thesis by (simp add: is_argsort_def stable_argsort_def)
qed









lemma local_maxima_from_flat:
  "(\<And>i. i < length x \<Longrightarrow> \<not> x ! (i - 1) < x ! i) \<Longrightarrow> local_maxima_from x i = []"
proof (induction x i rule: local_maxima_from.induct)
  case (1 x i)
  show ?case
  proof (cases "i < length x - 1")
    case False
    then show ?thesis by (subst local_maxima_from.simps) simp
  next
    case True
    then have nr: "\<not> x ! (i - 1) < x ! i" using 1(4) [of i] by simp
    have "local_maxima_from x (i + 1) = []" using 1(3) [OF True nr] 1(4) by simp
    then show ?thesis using True nr by (subst local_maxima_from.simps) simp
  qed
qed


lemma mask_Nil [simp]: "mask [] keep = []"
  by (simp add: mask_def)

lemma find_peaks_no_maxima:
  "local_maxima_1d x = [] \<Longrightarrow> 1 \<le> d \<Longrightarrow> find_peaks argsort x h d = Inr []"
  by (simp add: find_peaks_def Let_def)

lemma sum_squares_zero:
  "\<forall>s \<in> set zs. s = 0 \<Longrightarrow> sum_list (map (\<lambda>s :: real. \<bar>s\<^sup>2\<bar>) zs) = 0"
  by (induction zs) simp_all

lemma frame_energy_silent:
  assumes "\<forall>s \<in> set y. s = 0"
  shows "\<forall>v \<in> set (frame_energy y). v = 0"
proof -
  have "sum_list (map (\<lambda>s. \<bar>s\<^sup>2\<bar>) (take frame_length (drop i y))) = 0" for i
  proof (rule sum_squares_zero)
    show "\<forall>s \<in> set (take frame_length (drop i y)). s = 0"
      using assms by (meson in_set_dropD in_set_takeD)
  qed
  then show ?thesis by (auto simp: frame_energy_def)
qed

lemma np_max_zeros:
  assumes "a \<noteq> []" "\<forall>v \<in> set a. v = 0"
  shows "np_max a = Inr 0"
proof -
  have "set a = {0}" using assms by (cases a) auto
  then show ?thesis using np_max_Max [OF assms(1)] by simp
qed

lemma detect_peaks_silent:
  assumes "y \<noteq> []" "\<forall>s \<in> set y. s = 0"
  shows "detect_peaks argsort y = Inr (frame_energy y, [])"
proof -
  let ?e = "frame_energy y"
  have z: "\<forall>v \<in> set ?e. v = 0" by (rule frame_energy_silent [OF assms(2)])
  have ne: "?e \<noteq> []" using assms(1) by (simp add: frame_energy_empty_iff)
  have n: "normalize_energy ?e = Inr ?e"
    using np_max_zeros [OF ne z] by (simp add: normalize_energy_def)
  have "\<not> ?e ! (i - 1) < ?e ! i" if "i < length ?e" for i
  proof -
    have "?e ! i = 0" "?e ! (i - 1) = 0" using z that by (auto simp: all_set_conv_all_nth)
    then show ?thesis by simp
  qed
  then have "local_maxima_1d ?e = []"
    unfolding local_maxima_1d_def by (rule local_maxima_from_flat)
  then have "find_peaks argsort ?e 0.2 5 = Inr []" by (rule find_peaks_no_maxima) simp
  then show ?thesis using n by (simp add: detect_peaks_def)
qed

lemma max_decibels_silent:
  assumes "y \<noteq> []" "\<forall>s \<in> set y. s = 0"
  shows "max_decibels y = Inr NegInf"
proof -
  have "np_max (map abs y) = Inr 0" using assms by (intro np_max_zeros) auto
  then show ?thesis by (simp add: max_decibels_def to_decibels_def)
qed






lemma spectrum_loop_eq:
  "spectrum_loop frequency magnitude indices =
     Inr (map (\<lambda>i. \<lparr>point_frequency = py_round (frequency ! i) 1,
                     point_magnitude =
                       (if Max (set magnitude) > 0
                        then py_round (magnitude ! i / Max (set magnitude)) 3 else 0)\<rparr>)
            (filter (\<lambda>i. i < length magnitude) indices))"
proof (induction indices)
  case Nil
  show ?case by simp
next
  case (Cons i rest)
  show ?case
  proof (cases "i < length magnitude")
    case True
    then have "magnitude \<noteq> []" by auto
    then have "np_max magnitude = Inr (Max (set magnitude))" by (rule np_max_Max)
    then show ?thesis using True Cons by simp
  next
    case False
    then show ?thesis using Cons by simp
  qed
qed

lemma range_values_less: "0 < step \<Longrightarrow> i \<in> set (range_values stop step) \<Longrightarrow> i < stop"
  by (simp add: range_values_filter)

lemma spectrum_sampled:
  assumes "0 < step"
  shows "spectrum_loop (np_linspace sr (length magnitude)) magnitude
           (range_values (length magnitude div 2) step) =
         Inr (map (spectrum_point_at sr magnitude) (range_values (length magnitude div 2) step))"
proof -
  have "filter (\<lambda>i. i < length magnitude) (range_values (length magnitude div 2) step) =
        range_values (length magnitude div 2) step"
    using range_values_less [OF assms, of _ "length magnitude div 2"]
    by (intro filter_True) fastforce
  then show ?thesis by (simp add: spectrum_loop_eq spectrum_point_at_def)
qed

lemma freq_spectrum_live_eq:
  "freq_spectrum_live sr magnitude =
     Inr (map (spectrum_point_at sr magnitude)
            (range_values (length magnitude div 2) (max 1 (length magnitude div 200))))"
  using spectrum_sampled [of "max 1 (length magnitude div 200)" sr magnitude]
  by (simp add: freq_spectrum_live_def np_linspace_def py_range_def Let_def)

lemma freq_spectrum_basic_eq:
  "freq_spectrum_basic sr magnitude =
     (if length magnitude < 100 then Inl ValueError
      else Inr (map (spectrum_point_at sr magnitude)
                  (range_values (length magnitude div 2) (length magnitude div 100))))"
proof (cases "length magnitude < 100")
  case True
  then show ?thesis by (simp add: freq_spectrum_basic_def np_linspace_def py_range_def Let_def)
next
  case False
  then have "0 < length magnitude div 100" by (simp add: div_greater_zero_iff)
  then show ?thesis
    using spectrum_sampled [of "length magnitude div 100" sr magnitude] False
    by (simp add: freq_spectrum_basic_def np_linspace_def py_range_def Let_def)
qed







lemma spectrum_point_at_zero:
  assumes "magnitude \<noteq> []" "\<forall>m \<in> set magnitude. m = 0"
  shows "point_magnitude (spectrum_point_at sr magnitude i) = 0"
proof -
  have "Max (set magnitude) \<in> set magnitude" using assms(1) by simp
  then have "\<not> 0 < Max (set magnitude)" using assms(2) by auto
  then show ?thesis by (simp add: spectrum_point_at_def)
qed







subsection \<open>The claims\<close>

text \<open>C5: the Basic classifier labels a dominant frequency \<open>f\<close> at a peak as
  Low Frequency/Bass when \<open>f < 300\<close>, Voice/Mid Range when \<open>300 \<le> f < 1000\<close>,
  High Voice/Instruments when \<open>1000 \<le> f < 4000\<close> and High Frequency/Noise otherwise,
  for every real \<open>f\<close>; its result is the label alone, with no confidence.\<close>

theorem classify_basic_bands:
  "(f < 300 \<longrightarrow> classify_basic f = ''Low Frequency/Bass'') \<and>
   (300 \<le> f \<and> f < 1000 \<longrightarrow> classify_basic f = ''Voice/Mid Range'') \<and>
   (1000 \<le> f \<and> f < 4000 \<longrightarrow> classify_basic f = ''High Voice/Instruments'') \<and>
   (4000 \<le> f \<longrightarrow> classify_basic f = ''High Frequency/Noise'')"
  by (simp add: classify_basic_def)

theorem classify_basic_bands_witness:
  "classify_basic 299 = ''Low Frequency/Bass'' \<and>
   classify_basic 300 = ''Voice/Mid Range'' \<and>
   classify_basic 1000 = ''High Voice/Instruments'' \<and>
   classify_basic 4000 = ''High Frequency/Noise''"
  using classify_basic_bands [of 299] classify_basic_bands [of 300]
    classify_basic_bands [of 1000] classify_basic_bands [of 4000]
  by simp

text \<open>C2: for every real centroid \<open>c\<close>, rolloff \<open>r\<close> and zero-crossing rate \<open>z\<close> the
  Extended classifier returns what the ordered rules of the specification return when
  they are tried in their order and the first one that matches wins: Low Frequency/Bass
  with 0.8 when \<open>c < 1000\<close> and \<open>r < 2000\<close>; else Voice/Speech with 0.9 when \<open>c < 3000\<close>
  and \<open>z < 0.1\<close>; else High Frequency/Noise with 0.7 when \<open>c > 4000\<close> and \<open>r > 8000\<close>;
  else Percussive/Transient with 0.85 when \<open>z > 0.15\<close>; else Mixed/Complex with 0.6.\<close>

theorem classify_extended_first_match:
  "classify_extended c r z = first_match spec_extended_rules spec_extended_default (c, r, z) \<and>
   (c < 1000 \<and> r < 2000 \<longrightarrow> classify_extended c r z = (''Low Frequency/Bass'', 0.8)) \<and>
   (\<not> (c < 1000 \<and> r < 2000) \<and> c < 3000 \<and> z < 0.1 \<longrightarrow>
      classify_extended c r z = (''Voice/Speech'', 0.9)) \<and>
   (\<not> (c < 1000 \<and> r < 2000) \<and> \<not> (c < 3000 \<and> z < 0.1) \<and> c > 4000 \<and> r > 8000 \<longrightarrow>
      classify_extended c r z = (''High Frequency/Noise'', 0.7)) \<and>
   (\<not> (c < 1000 \<and> r < 2000) \<and> \<not> (c < 3000 \<and> z < 0.1) \<and> \<not> (c > 4000 \<and> r > 8000) \<and>
    z > 0.15 \<longrightarrow> classify_extended c r z = (''Percussive/Transient'', 0.85)) \<and>
   (\<not> (c < 1000 \<and> r < 2000) \<and> \<not> (c < 3000 \<and> z < 0.1) \<and> \<not> (c > 4000 \<and> r > 8000) \<and>
    \<not> z > 0.15 \<longrightarrow> classify_extended c r z = (''Mixed/Complex'', 0.6))"
  by (simp add: classify_extended_def spec_extended_rules_def spec_extended_default_def)

theorem classify_extended_first_match_witness:
  "classify_extended 500 1500 0.05 = (''Low Frequency/Bass'', 0.8) \<and>
   classify_extended 2000 3000 0.05 = (''Voice/Speech'', 0.9) \<and>
   classify_extended 5000 9000 0.2 = (''High Frequency/Noise'', 0.7) \<and>
   classify_extended 3500 5000 0.2 = (''Percussive/Transient'', 0.85) \<and>
   classify_extended 3500 5000 0.12 = (''Mixed/Complex'', 0.6)"
  using classify_extended_first_match [of 500 1500 "0.05", THEN conjunct2]
    classify_extended_first_match [of 2000 3000 "0.05", THEN conjunct2]
    classify_extended_first_match [of 5000 9000 "0.2", THEN conjunct2]
    classify_extended_first_match [of 3500 5000 "0.2", THEN conjunct2]
    classify_extended_first_match [of 3500 5000 "0.12", THEN conjunct2]
  by simp







text \<open>C4: for the empty waveform both analyzers return the failure result: the maximum
  of the empty energy envelope raises before any fallback is reached, whatever the
  transform provider delivered. The claim asks for a success result with duration 0 and
  no detected sound.\<close>

theorem empty_waveform_fails:
  "analyze_audio argsort [] sr magnitude spectral_centroids = Inl ValueError \<and>
   generate_live_analysis argsort [] sr magnitude spectral_centroids spectral_rolloff zcr =
     Inl ValueError"
proof -
  have "frame_energy [] = []" by (simp add: frame_energy_empty_iff)
  then have "detect_peaks argsort [] = Inl ValueError"
    by (simp add: detect_peaks_def normalize_energy_def np_max_def)
  then show ?thesis by (simp add: analyze_audio_def generate_live_analysis_def)
qed





text \<open>C7: for every silent (all-zero, non-empty) waveform, whose transform magnitude is
  all zero as well: the energy envelope is all zero and is returned unchanged, there is
  no peak and no sound event, and the maximal level is the negative-infinity sentinel.
  The Extended analyzer returns a result with these values and a spectrum whose
  magnitudes are all zero, and so does the Basic analyzer from 100 samples on; below 100
  samples the Basic analyzer returns the failure result instead.\<close>

theorem silent_waveform:
  assumes "y \<noteq> []" "\<forall>s \<in> set y. s = 0"
    and "length magnitude = length y" "\<forall>m \<in> set magnitude. m = 0"
  shows "detect_peaks argsort y = Inr (frame_energy y, []) \<and>
    (\<forall>v \<in> set (frame_energy y). v = 0) \<and>
    sound_events_basic argsort y sr spectral_centroids = Inr [] \<and>
    max_decibels y = Inr NegInf \<and>
    (length y < 100 \<longrightarrow>
       analyze_audio argsort y sr magnitude spectral_centroids = Inl ValueError) \<and>
    (100 \<le> length y \<longrightarrow>
       (\<exists>r. analyze_audio argsort y sr magnitude spectral_centroids = Inr r \<and>
            detectedSounds r = 0 \<and> soundEvents r = [] \<and> maxDecibels r = NegInf \<and>
            (\<forall>p \<in> set (frequencySpectrum r). point_magnitude p = 0))) \<and>
    (\<exists>r. generate_live_analysis argsort y sr magnitude spectral_centroids spectral_rolloff zcr
            = Inr r \<and>
          detectedSounds r = 0 \<and> soundEvents r = [] \<and> maxDecibels r = NegInf \<and>
          (\<forall>p \<in> set (frequencySpectrum r). point_magnitude p = 0))"
proof -
  have dp: "detect_peaks argsort y = Inr (frame_energy y, [])"
    by (rule detect_peaks_silent [OF assms(1,2)])
  have ez: "\<forall>v \<in> set (frame_energy y). v = 0" by (rule frame_energy_silent [OF assms(2)])
  have ev: "sound_events_basic argsort y sr spectral_centroids = Inr []"
    by (simp add: sound_events_basic_def dp)
  have md: "max_decibels y = Inr NegInf" by (rule max_decibels_silent [OF assms(1,2)])
  have short: "analyze_audio argsort y sr magnitude spectral_centroids = Inl ValueError"
    if "length y < 100"
    using that assms(3) by (simp add: analyze_audio_def dp md freq_spectrum_basic_eq)
  have zero: "\<forall>p \<in> set (map (spectrum_point_at sr magnitude) is). point_magnitude p = 0" for "is"
  proof -
    have "magnitude \<noteq> []" using assms(1,3) by auto
    then show ?thesis using spectrum_point_at_zero [OF _ assms(4)] by simp
  qed
  have long: "\<exists>r. analyze_audio argsort y sr magnitude spectral_centroids = Inr r \<and>
            detectedSounds r = 0 \<and> soundEvents r = [] \<and> maxDecibels r = NegInf \<and>
            (\<forall>p \<in> set (frequencySpectrum r). point_magnitude p = 0)"
    if "100 \<le> length y"
    using that assms(3) zero
    by (simp add: analyze_audio_def dp md freq_spectrum_basic_eq sort_loudest_first_def
        round_decibel_def)
  have live: "\<exists>r. generate_live_analysis argsort y sr magnitude spectral_centroids
              spectral_rolloff zcr = Inr r \<and>
          detectedSounds r = 0 \<and> soundEvents r = [] \<and> maxDecibels r = NegInf \<and>
          (\<forall>p \<in> set (frequencySpectrum r). point_magnitude p = 0)"
    using zero
    by (simp add: generate_live_analysis_def dp md freq_spectrum_live_eq sort_loudest_first_def
        round_decibel_def)
  show ?thesis using dp ez ev md short long live by blast
qed

theorem silent_waveform_witness:
  "replicate 50 (0 :: real) \<noteq> [] \<and> length (replicate 50 (0 :: real)) < 100 \<and>
   detect_peaks stable_argsort (replicate 50 0) = Inr (frame_energy (replicate 50 0), []) \<and>
   max_decibels (replicate 50 0) = Inr NegInf \<and>
   analyze_audio stable_argsort (replicate 50 0) 44100 (replicate 50 0) [0] = Inl ValueError \<and>
   100 \<le> length (replicate 100 (0 :: real)) \<and>
   (\<exists>r. analyze_audio stable_argsort (replicate 100 0) 44100 (replicate 100 0) [0] = Inr r \<and>
        detectedSounds r = 0 \<and> soundEvents r = [] \<and> maxDecibels r = NegInf \<and>
        list_all (\<lambda>p. point_magnitude p = 0) (frequencySpectrum r))"
proof -
  have h: "replicate n (0 :: real) \<noteq> []" "\<forall>s \<in> set (replicate n (0 :: real)). s = 0"
    "length (replicate n (0 :: real)) = length (replicate n (0 :: real))"
    "\<forall>m \<in> set (replicate n (0 :: real)). m = 0" if "0 < n" for n
    using that by simp_all
  have l: "length (replicate 50 (0 :: real)) < 100" "100 \<le> length (replicate 100 (0 :: real))"
    by simp_all
  have a: "0 < (50 :: nat)" and b: "0 < (100 :: nat)" by simp_all
  show ?thesis
    using h(1) [OF a] l silent_waveform [OF h [OF a], of stable_argsort 44100 "[0]"]
      silent_waveform [OF h [OF b], of stable_argsort 44100 "[0]"]
    unfolding list_all_iff by blast
qed






end
